theory Spec2Isabelle
  imports Complex_Main "HOL-Library.AList"
begin

section \<open>Data model\<close>

text \<open>
  The device tree comes from the client library \<^verbatim>\<open>vaillant_netatmo_api\<close>: a
  \<^verbatim>\<open>Device\<close> holds \<^verbatim>\<open>Module\<close>s, a module holds its \<^verbatim>\<open>Program\<close>s and a
  \<^verbatim>\<open>Measured\<close> record. The classes are the library's; the records carry the
  attributes the integration reads or writes, and a program's name and an item's begin
  time and step beside them, which it never touches. Python's \<^verbatim>\<open>float\<close> values
  are only copied by this code, never computed with, so they are carried as reals;
  \<^verbatim>\<open>str\<close> of a float is a parameter of the functions that need it.
\<close>

type_synonym float = real

datatype exn =
    RequestUnauthorizedException
  | ApiException string
  | ConfigEntryAuthFailed
  | UpdateFailed string
  | IndexError
  | KeyError string
  | OtherException string

record Program =
  p_id :: string
  p_name :: string

record Measured =
  temperature :: float
  setpoint_temp :: float
  gas_heating_usage :: "float list"
  gas_water_usage :: "float list"

record Module =
  m_id :: string
  "module_name" :: string
  firmware :: int
  battery_percent :: int
  therm_program_list :: "Program list"
  measured :: Measured

record Device =
  d_id :: string
  d_type :: string
  d_modules :: "Module list"

record MeasurementItem =
  beg_time :: int
  step_time :: int
  mi_value :: "float list"

datatype MeasurementType =
  TEMPERATURE | SETPOINT_TEMPERATURE | SUM_ENERGY_GAS_HEATING | SUM_ENERGY_GAS_WATER

datatype MeasurementScale = Scale_MAX | Scale_DAY

section \<open>Python primitives\<close>

text \<open>\<^verbatim>\<open>xs[i]\<close>: a negative index counts from the end, an index out of range raises.\<close>

definition py_index :: "'a list \<Rightarrow> int \<Rightarrow> exn + 'a" where
  "py_index xs i =
     (if 0 \<le> i \<and> i < int (length xs) then Inr (xs ! nat i)
      else if i < 0 \<and> - int (length xs) \<le> i then Inr (xs ! nat (int (length xs) + i))
      else Inl IndexError)"

text \<open>
  A \<^verbatim>\<open>dict\<close> keeps insertion order; storing under a key that is present replaces
  the value where it stands. That is \<^const>\<open>AList.update\<close> on an association list.
  \<^verbatim>\<open>{k(x): v(x) for x in xs}\<close> stores the pairs from left to right.
\<close>

type_synonym ('k, 'v) dict = "('k \<times> 'v) list"

definition dict_comprehension :: "('a \<Rightarrow> 'k) \<Rightarrow> ('a \<Rightarrow> 'v) \<Rightarrow> 'a list \<Rightarrow> ('k, 'v) dict" where
  "dict_comprehension k v xs = fold (\<lambda>x d. AList.update (k x) (v x) d) xs []"

text \<open>\<^verbatim>\<open>d[k]\<close> raises \<^verbatim>\<open>KeyError(k)\<close> when the key is missing.\<close>

definition dict_getitem :: "(string, 'v) dict \<Rightarrow> string \<Rightarrow> exn + 'v" where
  "dict_getitem d k = (case map_of d k of None \<Rightarrow> Inl (KeyError k) | Some v \<Rightarrow> Inr v)"

definition dict_values :: "('k, 'v) dict \<Rightarrow> 'v list" where
  "dict_values d = map snd d"

text \<open>\<^verbatim>\<open>str\<close> of an \<^verbatim>\<open>int\<close>: decimal digits, with a minus sign below zero.\<close>

fun str_nat :: "nat \<Rightarrow> string" where
  "str_nat n =
     (if n < 10 then [''0123456789'' ! n]
      else str_nat (n div 10) @ [''0123456789'' ! (n mod 10)])"

definition str_int :: "int \<Rightarrow> string" where
  "str_int i = (if i < 0 then CHR ''-'' # str_nat (nat (- i)) else str_nat (nat i))"

text \<open>\<^verbatim>\<open>", ".join(xs)\<close> and \<^verbatim>\<open>str\<close> of a list, given \<^verbatim>\<open>repr\<close> of its elements.\<close>

fun join_comma :: "string list \<Rightarrow> string" where
  "join_comma [] = []"
| "join_comma [x] = x"
| "join_comma (x # y # ys) = x @ '', '' @ join_comma (y # ys)"

definition str_list :: "('a \<Rightarrow> string) \<Rightarrow> 'a list \<Rightarrow> string" where
  "str_list repr xs = ''['' @ join_comma (map repr xs) @ '']''"

section \<open>The data handed to the entities: \<^verbatim>\<open>VaillantData\<close>\<close>

text \<open>
  The client is the library's \<^verbatim>\<open>ThermostatClient\<close>. What it answers is outside this
  code, so it is a parameter: one answer for the thermostats data and one for each
  measurement request, each either raising or returning.
\<close>

record ThermostatClient =
  async_get_thermostats_data :: "exn + Device list"
  async_get_measure ::
    "string \<Rightarrow> string \<Rightarrow> MeasurementType \<Rightarrow> MeasurementScale \<Rightarrow> int \<Rightarrow> exn + MeasurementItem list"

record VaillantData =
  client :: ThermostatClient
  devices :: "(string, Device) dict"
  modules :: "(string, Module) dict"
  programs :: "(string, Program) dict"

definition all_modules :: "Device list \<Rightarrow> Module list" where
  "all_modules ds = concat (map d_modules ds)"

definition all_programs :: "Device list \<Rightarrow> Program list" where
  "all_programs ds = concat (map therm_program_list (all_modules ds))"

text \<open>\<^verbatim>\<open>VaillantData.__init__\<close>: three dict comprehensions over the device tree.\<close>

definition VaillantData_init :: "ThermostatClient \<Rightarrow> Device list \<Rightarrow> VaillantData" where
  "VaillantData_init cl ds =
     \<lparr> client = cl,
       devices = dict_comprehension d_id (\<lambda>device. device) ds,
       modules = dict_comprehension m_id (\<lambda>mdl. mdl) (all_modules ds),
       programs = dict_comprehension p_id (\<lambda>program. program) (all_programs ds) \<rparr>"

section \<open>The coordinator\<close>

text \<open>
  The coordinator holds the client and, in \<open>c_data\<close>, the data the framework last
  stored for the entities (\<^verbatim>\<open>DataUpdateCoordinator.data\<close>; none before the first
  successful poll). \<open>sent\<close> records the requests issued through the client, oldest
  first: it is the only trace the fetch routines leave.
\<close>

datatype task = AsyncGetMeasure string string MeasurementType MeasurementScale int

datatype request = GetThermostatsData | GetMeasure task

record VaillantCoordinator =
  c_client :: ThermostatClient
  c_data :: "VaillantData option"
  sent :: "request list"

text \<open>
  Calling \<^verbatim>\<open>async_get_measure\<close> only builds a task; the request goes out when the
  task is run.
\<close>

fun perform :: "ThermostatClient \<Rightarrow> task \<Rightarrow> exn + MeasurementItem list" where
  "perform cl (AsyncGetMeasure device_id module_id mtype scale start_time) =
     async_get_measure cl device_id module_id mtype scale start_time"

text \<open>
  \<^verbatim>\<open>asyncio.gather(*tasks)\<close>: every task is started, the results come back in the
  order of the tasks whatever the order of completion, and an exception of a task is
  raised to the caller. When several tasks raise, asyncio raises the one that fails
  first in time; the model takes the first in task order.
\<close>

fun collect :: "(exn + 'a) list \<Rightarrow> exn + 'a list" where
  "collect [] = Inr []"
| "collect (Inl ex # rs) = Inl ex"
| "collect (Inr x # rs) = (case collect rs of Inl ex \<Rightarrow> Inl ex | Inr xs \<Rightarrow> Inr (x # xs))"

definition gather ::
  "task list \<Rightarrow> VaillantCoordinator \<Rightarrow> (exn + MeasurementItem list list) \<times> VaillantCoordinator" where
  "gather tasks c =
     (collect (map (perform (c_client c)) tasks), c\<lparr>sent := sent c @ map GetMeasure tasks\<rparr>)"

text \<open>
  The two nested loops that append two tasks per module. \<open>now\<close> is the reading of
  \<^verbatim>\<open>datetime.now()\<close>, in seconds; an hour is 3600 seconds and seven days are 604800.
\<close>

definition temperature_tasks :: "int \<Rightarrow> Device list \<Rightarrow> task list" where
  "temperature_tasks start_time ds =
     concat (map (\<lambda>device. concat (map (\<lambda>mdl.
       [AsyncGetMeasure (d_id device) (m_id mdl) TEMPERATURE Scale_MAX start_time,
        AsyncGetMeasure (d_id device) (m_id mdl) SETPOINT_TEMPERATURE Scale_MAX start_time])
       (d_modules device))) ds)"

definition gas_usage_tasks :: "int \<Rightarrow> Device list \<Rightarrow> task list" where
  "gas_usage_tasks start_time ds =
     concat (map (\<lambda>device. concat (map (\<lambda>mdl.
       [AsyncGetMeasure (d_id device) (m_id mdl) SUM_ENERGY_GAS_HEATING Scale_DAY start_time,
        AsyncGetMeasure (d_id device) (m_id mdl) SUM_ENERGY_GAS_WATER Scale_DAY start_time])
       (d_modules device))) ds)"

definition get_temperature_measurements_for_all_devices ::
  "int \<Rightarrow> Device list \<Rightarrow> VaillantCoordinator
     \<Rightarrow> (exn + MeasurementItem list list) \<times> VaillantCoordinator" where
  "get_temperature_measurements_for_all_devices now ds c =
     gather (temperature_tasks (now - 3600) ds) c"

definition get_energy_usage_measurements_for_all_devices ::
  "int \<Rightarrow> Device list \<Rightarrow> VaillantCoordinator
     \<Rightarrow> (exn + MeasurementItem list list) \<times> VaillantCoordinator" where
  "get_energy_usage_measurements_for_all_devices now ds c =
     gather (gas_usage_tasks (now - 604800) ds) c"

subsection \<open>The merge step\<close>

text \<open>
  \<^verbatim>\<open>measurements[-1] if measurements else None\<close>, then the last value of that item
  when the item is there and its value list is not empty, the default otherwise.
\<close>

definition get_measurement_value :: "MeasurementItem list \<Rightarrow> float \<Rightarrow> float" where
  "get_measurement_value measurements default_value =
     (let measure = (if measurements \<noteq> [] then Some (last measurements) else None) in
      case measure of
        None \<Rightarrow> default_value
      | Some item \<Rightarrow> if mi_value item \<noteq> [] then last (mi_value item) else default_value)"

definition get_energy_measurement_value ::
  "MeasurementItem list \<Rightarrow> float list \<Rightarrow> float list" where
  "get_energy_measurement_value measurements default_value =
     (let measure = (if measurements \<noteq> [] then Some (last measurements) else None) in
      case measure of
        None \<Rightarrow> default_value
      | Some item \<Rightarrow> if mi_value item \<noteq> [] then mi_value item else default_value)"

text \<open>
  The body of the inner loop for one module at counter \<open>i\<close>. The four assignments
  happen in the source's order; an index out of range raises at that point and leaves
  the assignments made so far in place.
\<close>

definition update_module ::
  "MeasurementItem list list \<Rightarrow> MeasurementItem list list \<Rightarrow> nat \<Rightarrow> Module
     \<Rightarrow> Module \<times> exn option" where
  "update_module measurements energy_usage i mdl =
     (case py_index measurements (int i) of
        Inl ex \<Rightarrow> (mdl, Some ex)
      | Inr m0 \<Rightarrow>
     (let mdl1 = mdl\<lparr>measured := (measured mdl)
            \<lparr>temperature := get_measurement_value m0 (temperature (measured mdl))\<rparr>\<rparr> in
      case py_index measurements (int i + 1) of
        Inl ex \<Rightarrow> (mdl1, Some ex)
      | Inr m1 \<Rightarrow>
     (let mdl2 = mdl1\<lparr>measured := (measured mdl1)
            \<lparr>setpoint_temp := get_measurement_value m1 (setpoint_temp (measured mdl1))\<rparr>\<rparr> in
      case py_index energy_usage (int i) of
        Inl ex \<Rightarrow> (mdl2, Some ex)
      | Inr e0 \<Rightarrow>
     (let mdl3 = mdl2\<lparr>measured := (measured mdl2)
            \<lparr>gas_heating_usage :=
               get_energy_measurement_value e0 (gas_heating_usage (measured mdl2))\<rparr>\<rparr> in
      case py_index energy_usage (int i + 1) of
        Inl ex \<Rightarrow> (mdl3, Some ex)
      | Inr e1 \<Rightarrow>
          (mdl3\<lparr>measured := (measured mdl3)
            \<lparr>gas_water_usage :=
               get_energy_measurement_value e1 (gas_water_usage (measured mdl3))\<rparr>\<rparr>,
           None)))))"

text \<open>The inner loop over the modules of a device, and the outer one over the devices;
  both thread the counter, which grows by two after each module.\<close>

fun update_modules ::
  "MeasurementItem list list \<Rightarrow> MeasurementItem list list \<Rightarrow> nat \<Rightarrow> Module list
     \<Rightarrow> Module list \<times> nat \<times> exn option" where
  "update_modules measurements energy_usage i [] = ([], i, None)"
| "update_modules measurements energy_usage i (mdl # rest) =
     (case update_module measurements energy_usage i mdl of
        (mdl', Some ex) \<Rightarrow> (mdl' # rest, i, Some ex)
      | (mdl', None) \<Rightarrow>
          (case update_modules measurements energy_usage (i + 2) rest of
             (rest', j, r) \<Rightarrow> (mdl' # rest', j, r)))"

fun update_devices ::
  "MeasurementItem list list \<Rightarrow> MeasurementItem list list \<Rightarrow> nat \<Rightarrow> Device list
     \<Rightarrow> Device list \<times> nat \<times> exn option" where
  "update_devices measurements energy_usage i [] = ([], i, None)"
| "update_devices measurements energy_usage i (device # rest) =
     (case update_modules measurements energy_usage i (d_modules device) of
        (ms, j, Some ex) \<Rightarrow> (device\<lparr>d_modules := ms\<rparr> # rest, j, Some ex)
      | (ms, j, None) \<Rightarrow>
          (case update_devices measurements energy_usage j rest of
             (rest', k, r) \<Rightarrow> (device\<lparr>d_modules := ms\<rparr> # rest', k, r)))"

text \<open>
  \<^verbatim>\<open>_update_measured_data\<close> mutates the modules in place; the model returns the
  devices as they are when the method returns or raises, and the exception if any.
\<close>

definition update_measured_data ::
  "Device list \<Rightarrow> MeasurementItem list list \<Rightarrow> MeasurementItem list list
     \<Rightarrow> Device list \<times> exn option" where
  "update_measured_data ds measurements energy_usage =
     (case update_devices measurements energy_usage 0 ds of (ds', i, r) \<Rightarrow> (ds', r))"

subsection \<open>The update method\<close>

text \<open>The two \<^verbatim>\<open>except\<close> clauses; any other exception passes through.\<close>

fun reraise :: "exn \<Rightarrow> exn" where
  "reraise RequestUnauthorizedException = ConfigEntryAuthFailed"
| "reraise (ApiException msg) = UpdateFailed (''Error communicating with API: '' @ msg)"
| "reraise ex = ex"

text \<open>
  \<^verbatim>\<open>_update_method\<close>. \<open>now1\<close> and \<open>now2\<close> are the clock readings of the two fetch
  routines. The method returns the new \<^verbatim>\<open>VaillantData\<close> or raises; it never assigns
  the coordinator's data itself. \<^verbatim>\<open>_debug_log\<close> only reads and logs.
\<close>

definition update_method ::
  "int \<Rightarrow> int \<Rightarrow> VaillantCoordinator \<Rightarrow> (exn + VaillantData) \<times> VaillantCoordinator" where
  "update_method now1 now2 c =
     (let c1 = c\<lparr>sent := sent c @ [GetThermostatsData]\<rparr> in
      case async_get_thermostats_data (c_client c) of
        Inl ex \<Rightarrow> (Inl (reraise ex), c1)
      | Inr ds \<Rightarrow>
     (case get_temperature_measurements_for_all_devices now1 ds c1 of
        (Inl ex, c2) \<Rightarrow> (Inl (reraise ex), c2)
      | (Inr measurements, c2) \<Rightarrow>
     (case get_energy_usage_measurements_for_all_devices now2 ds c2 of
        (Inl ex, c3) \<Rightarrow> (Inl (reraise ex), c3)
      | (Inr energy_usage, c3) \<Rightarrow>
     (case update_measured_data ds measurements energy_usage of
        (ds', Some ex) \<Rightarrow> (Inl (reraise ex), c3)
      | (ds', None) \<Rightarrow> (Inr (VaillantData_init (c_client c3) ds'), c3)))))"

section \<open>The sensor entities\<close>

datatype sensor_class = VaillantBatterySensor | VaillantGasWaterSensor | VaillantGasHeatingSensor

record VaillantEntity =
  sensor :: sensor_class
  device_id :: string
  module_id :: string
  program_id :: "string option"

text \<open>\<^verbatim>\<open>VaillantEntity.__init__\<close>; the sensors are built without a program id.\<close>

definition VaillantEntity_init :: "sensor_class \<Rightarrow> string \<Rightarrow> string \<Rightarrow> VaillantEntity" where
  "VaillantEntity_init cls did mid =
     \<lparr> sensor = cls, device_id = did, module_id = mid, program_id = None \<rparr>"

text \<open>\<^verbatim>\<open>async_setup_entry\<close>: the list handed to \<^verbatim>\<open>async_add_devices\<close>.\<close>

definition async_setup_entry :: "VaillantData \<Rightarrow> VaillantEntity list" where
  "async_setup_entry data =
     [VaillantEntity_init VaillantBatterySensor (d_id device) (m_id mdl).
        device \<leftarrow> dict_values (devices data), mdl \<leftarrow> d_modules device]
   @ [VaillantEntity_init VaillantGasWaterSensor (d_id device) (m_id mdl).
        device \<leftarrow> dict_values (devices data), mdl \<leftarrow> d_modules device]
   @ [VaillantEntity_init VaillantGasHeatingSensor (d_id device) (m_id mdl).
        device \<leftarrow> dict_values (devices data), mdl \<leftarrow> d_modules device]"

subsection \<open>Properties\<close>

text \<open>
  A property is evaluated against the coordinator's data. It returns a value or raises,
  together with the data as the evaluation leaves it.
\<close>

type_synonym 'a property = "VaillantData \<Rightarrow> (exn + 'a) \<times> VaillantData"

definition returns :: "'a \<Rightarrow> 'a property" where
  "returns x data = (Inr x, data)"

definition outcome :: "exn + 'a \<Rightarrow> 'a property" where
  "outcome r data = (r, data)"

definition bind :: "'a property \<Rightarrow> ('a \<Rightarrow> 'b property) \<Rightarrow> 'b property" where
  "bind p f data =
     (case p data of (Inl ex, data') \<Rightarrow> (Inl ex, data') | (Inr x, data') \<Rightarrow> f x data')"

definition entity_device :: "VaillantEntity \<Rightarrow> Device property" where
  "entity_device self data = (dict_getitem (devices data) (device_id self), data)"

definition entity_module :: "VaillantEntity \<Rightarrow> Module property" where
  "entity_module self data = (dict_getitem (modules data) (module_id self), data)"

definition entity_program :: "VaillantEntity \<Rightarrow> Program option property" where
  "entity_program self data =
     (case program_id self of
        None \<Rightarrow> (Inr None, data)
      | Some pid \<Rightarrow> (map_sum (\<lambda>ex. ex) Some (dict_getitem (programs data) pid), data))"

record device_info_dict =
  identifiers :: "(string \<times> string) set"
  name :: string
  sw_version :: int
  manufacturer :: string
  via_device :: "string \<times> string"

text \<open>
  \<^verbatim>\<open>device_info\<close> reads \<^verbatim>\<open>self._module\<close> three times and \<^verbatim>\<open>self._device\<close>
  twice, in this order. \<open>DOMAIN\<close> is the constant of \<^verbatim>\<open>const.py\<close>.
\<close>

definition device_info :: "string \<Rightarrow> VaillantEntity \<Rightarrow> device_info_dict property" where
  "device_info DOMAIN self =
     bind (entity_module self) (\<lambda>m1.
     bind (entity_module self) (\<lambda>m2.
     bind (entity_module self) (\<lambda>m3.
     bind (entity_device self) (\<lambda>d1.
     bind (entity_device self) (\<lambda>d2.
     returns \<lparr> identifiers = {(DOMAIN, m_id m1)},
               name = module_name m2,
               sw_version = firmware m3,
               manufacturer = d_type d1,
               via_device = (DOMAIN, d_id d2) \<rparr>)))))"

definition unique_id :: "VaillantEntity \<Rightarrow> string property" where
  "unique_id self =
     (case sensor self of
        VaillantBatterySensor \<Rightarrow> bind (entity_module self) (\<lambda>m. returns (m_id m))
      | VaillantGasWaterSensor \<Rightarrow>
          bind (entity_module self) (\<lambda>m. returns (m_id m @ ''_gas_water''))
      | VaillantGasHeatingSensor \<Rightarrow>
          bind (entity_module self) (\<lambda>m. returns (m_id m @ ''_gas_heating'')))"

definition entity_name :: "VaillantEntity \<Rightarrow> string property" where
  "entity_name self =
     (case sensor self of
        VaillantBatterySensor \<Rightarrow>
          bind (entity_module self) (\<lambda>m. returns (module_name m @ '' Battery''))
      | VaillantGasWaterSensor \<Rightarrow>
          bind (entity_module self) (\<lambda>m. returns (module_name m @ '' Water Gas usage''))
      | VaillantGasHeatingSensor \<Rightarrow>
          bind (entity_module self) (\<lambda>m. returns (module_name m @ '' Heating Gas usage'')))"

text \<open>
  \<^verbatim>\<open>native_value\<close>. The gas sensors read the usage list, then read it again for
  its length, and index it at the length minus one. \<open>str_float\<close> is \<^verbatim>\<open>str\<close> on
  floats.
\<close>

definition native_value :: "(float \<Rightarrow> string) \<Rightarrow> VaillantEntity \<Rightarrow> string property" where
  "native_value str_float self =
     (case sensor self of
        VaillantBatterySensor \<Rightarrow>
          bind (entity_module self) (\<lambda>m. returns (str_int (battery_percent m)))
      | VaillantGasWaterSensor \<Rightarrow>
          bind (entity_module self) (\<lambda>m1.
          bind (entity_module self) (\<lambda>m2.
          bind (outcome (py_index (gas_water_usage (measured m1))
                          (int (length (gas_water_usage (measured m2))) - 1))) (\<lambda>x.
          returns (str_float x))))
      | VaillantGasHeatingSensor \<Rightarrow>
          bind (entity_module self) (\<lambda>m1.
          bind (entity_module self) (\<lambda>m2.
          bind (outcome (py_index (gas_heating_usage (measured m1))
                          (int (length (gas_heating_usage (measured m2))) - 1))) (\<lambda>x.
          returns (str_float x)))))"

text \<open>
  \<^verbatim>\<open>extra_state_attributes\<close>: a one-entry dict for the gas sensors; the battery
  sensor does not define the property and inherits the framework's \<^verbatim>\<open>None\<close>.
\<close>

definition extra_state_attributes ::
  "(float \<Rightarrow> string) \<Rightarrow> VaillantEntity \<Rightarrow> (string, string) dict option property" where
  "extra_state_attributes str_float self =
     (case sensor self of
        VaillantBatterySensor \<Rightarrow> returns None
      | VaillantGasWaterSensor \<Rightarrow>
          bind (entity_module self) (\<lambda>m.
          returns (Some [(''historical_values'',
                          str_list str_float (gas_water_usage (measured m)))]))
      | VaillantGasHeatingSensor \<Rightarrow>
          bind (entity_module self) (\<lambda>m.
          returns (Some [(''historical_values'',
                          str_list str_float (gas_heating_usage (measured m)))])))"

section \<open>Specification vocabulary and example values\<close>

text \<open>
  A module with its four measured fields blanked, and a device with all its modules so
  blanked: two device lists that agree after blanking differ in measured values only.
\<close>

definition unmeasured :: "Module \<Rightarrow> Module" where
  "unmeasured mdl =
     mdl\<lparr>measured := (measured mdl)
       \<lparr>temperature := 0, setpoint_temp := 0, gas_heating_usage := [], gas_water_usage := []\<rparr>\<rparr>"

definition unmeasured_device :: "Device \<Rightarrow> Device" where
  "unmeasured_device device = device\<lparr>d_modules := map unmeasured (d_modules device)\<rparr>"

definition example_module :: Module where
  "example_module =
     \<lparr> m_id = ''m1'', module_name = ''Living room'', firmware = 56, battery_percent = 87,
       therm_program_list = [\<lparr> p_id = ''p1'', p_name = ''Week'' \<rparr>],
       measured = \<lparr> temperature = 19, setpoint_temp = 20,
                    gas_heating_usage = [5], gas_water_usage = [7] \<rparr> \<rparr>"

definition item :: "float list \<Rightarrow> MeasurementItem" where
  "item vs = \<lparr> beg_time = 0, step_time = 0, mi_value = vs \<rparr>"

text \<open>The (device id, module id) pairs of the modules under the data's devices, in the
  order of the device table and of each device's module list.\<close>

definition module_keys :: "VaillantData \<Rightarrow> (string \<times> string) list" where
  "module_keys data =
     [(d_id device, m_id mdl). device \<leftarrow> dict_values (devices data), mdl \<leftarrow> d_modules device]"

definition example_device :: Device where
  "example_device = \<lparr> d_id = ''d1'', d_type = ''NAPlug'', d_modules = [example_module] \<rparr>"

definition example_client :: ThermostatClient where
  "example_client =
     \<lparr> async_get_thermostats_data = Inr [example_device],
       async_get_measure = (\<lambda>device_id module_id mtype scale start_time.
         (case mtype of
            TEMPERATURE \<Rightarrow> Inr [item [21, 22]]
          | SETPOINT_TEMPERATURE \<Rightarrow> Inr []
          | SUM_ENERGY_GAS_HEATING \<Rightarrow> Inr [item [100, 200]]
          | SUM_ENERGY_GAS_WATER \<Rightarrow> Inr [item []])) \<rparr>"

definition example_data :: VaillantData where
  "example_data = VaillantData_init example_client [example_device]"

definition example_str_float :: "float \<Rightarrow> string" where
  "example_str_float x = str_int \<lfloor>x\<rfloor> @ ''.0''"

definition example_empty_data :: VaillantData where
  "example_empty_data =
     example_data\<lparr>modules := [(''m1'', example_module\<lparr>measured :=
       (measured example_module)\<lparr>gas_water_usage := []\<rparr>\<rparr>)]\<rparr>"

text \<open>
  The requests of a full poll cycle, in the order of issue: thermostats data, then the
  temperature batch and the energy batch for the devices it returned.
\<close>

definition poll_schedule :: "int \<Rightarrow> int \<Rightarrow> ThermostatClient \<Rightarrow> request list" where
  "poll_schedule now1 now2 cl =
     GetThermostatsData #
     (case async_get_thermostats_data cl of
        Inl ex \<Rightarrow> []
      | Inr ds \<Rightarrow>
          map GetMeasure (temperature_tasks (now1 - 3600) ds @ gas_usage_tasks (now2 - 604800) ds))"

text \<open>The requests one run of the update method adds to the trace.\<close>

definition issued :: "int \<Rightarrow> int \<Rightarrow> VaillantCoordinator \<Rightarrow> request list" where
  "issued now1 now2 c = drop (length (sent c)) (sent (snd (update_method now1 now2 c)))"

text \<open>The exception with which the client answers a request, if it raises.\<close>

fun raised :: "ThermostatClient \<Rightarrow> request \<Rightarrow> exn option" where
  "raised cl GetThermostatsData =
     (case async_get_thermostats_data cl of Inl ex \<Rightarrow> Some ex | Inr ds \<Rightarrow> None)"
| "raised cl (GetMeasure t) = (case perform cl t of Inl ex \<Rightarrow> Some ex | Inr items \<Rightarrow> None)"

text \<open>
  A module with its four measured fields merged from four answers, and the module
  merged from the answers to its own four requests.
\<close>

definition write_measured ::
  "MeasurementItem list \<Rightarrow> MeasurementItem list \<Rightarrow> MeasurementItem list
     \<Rightarrow> MeasurementItem list \<Rightarrow> Module \<Rightarrow> Module" where
  "write_measured t s h w mdl =
     mdl\<lparr>measured := (measured mdl)
       \<lparr>temperature := get_measurement_value t (temperature (measured mdl)),
        setpoint_temp := get_measurement_value s (setpoint_temp (measured mdl)),
        gas_heating_usage := get_energy_measurement_value h (gas_heating_usage (measured mdl)),
        gas_water_usage := get_energy_measurement_value w (gas_water_usage (measured mdl))\<rparr>\<rparr>"

definition merged_module :: "ThermostatClient \<Rightarrow> int \<Rightarrow> int \<Rightarrow> Device \<Rightarrow> Module \<Rightarrow> Module" where
  "merged_module cl now1 now2 device mdl =
     write_measured
       (projr (async_get_measure cl (d_id device) (m_id mdl) TEMPERATURE Scale_MAX
          (now1 - 3600)))
       (projr (async_get_measure cl (d_id device) (m_id mdl) SETPOINT_TEMPERATURE Scale_MAX
          (now1 - 3600)))
       (projr (async_get_measure cl (d_id device) (m_id mdl) SUM_ENERGY_GAS_HEATING Scale_DAY
          (now2 - 604800)))
       (projr (async_get_measure cl (d_id device) (m_id mdl) SUM_ENERGY_GAS_WATER Scale_DAY
          (now2 - 604800)))
       mdl"

definition merged_device :: "ThermostatClient \<Rightarrow> int \<Rightarrow> int \<Rightarrow> Device \<Rightarrow> Device" where
  "merged_device cl now1 now2 device =
     device\<lparr>d_modules := map (merged_module cl now1 now2 device) (d_modules device)\<rparr>"

definition example_coordinator :: VaillantCoordinator where
  "example_coordinator = \<lparr> c_client = example_client, c_data = None, sent = [] \<rparr>"

definition failing_client :: "exn \<Rightarrow> ThermostatClient" where
  "failing_client ex =
     \<lparr> async_get_thermostats_data = Inr [example_device],
       async_get_measure = (\<lambda>device_id module_id mtype scale start_time. Inl ex) \<rparr>"

definition failing_coordinator :: "exn \<Rightarrow> VaillantCoordinator" where
  "failing_coordinator ex =
     \<lparr> c_client = failing_client ex, c_data = Some example_data, sent = [] \<rparr>"

section \<open>The merge step: what is written, and what is left alone\<close>

lemma py_index_nat: "py_index xs (int i) = (if i < length xs then Inr (xs ! i) else Inl IndexError)"
  by (simp add: py_index_def)

lemma py_index_Suc: "py_index xs (int i + 1) = (if i + 1 < length xs then Inr (xs ! (i + 1)) else Inl IndexError)"
  using py_index_nat [of xs "i + 1"] by (simp add: add.commute)



lemma update_module_in_range:
  assumes "i + 1 < length measurements" and "i + 1 < length energy_usage"
  shows "update_module measurements energy_usage i mdl =
     (mdl\<lparr>measured := (measured mdl)
        \<lparr>temperature := get_measurement_value (measurements ! i) (temperature (measured mdl)),
         setpoint_temp := get_measurement_value (measurements ! (i + 1)) (setpoint_temp (measured mdl)),
         gas_heating_usage := get_energy_measurement_value (energy_usage ! i) (gas_heating_usage (measured mdl)),
         gas_water_usage := get_energy_measurement_value (energy_usage ! (i + 1)) (gas_water_usage (measured mdl))\<rparr>\<rparr>,
      None)"
  using assms by (simp add: update_module_def py_index_nat py_index_Suc Let_def)

lemma unmeasured_update_module:
  "unmeasured (fst (update_module measurements energy_usage i mdl)) = unmeasured mdl"
  by (simp add: update_module_def unmeasured_def Let_def split: sum.split)

lemma unmeasured_update_modules:
  "map unmeasured (fst (update_modules measurements energy_usage i ms)) = map unmeasured ms"
proof (induction ms arbitrary: i)
  case Nil
  show ?case by simp
next
  case (Cons mdl rest)
  obtain mdl' r where step: "update_module measurements energy_usage i mdl = (mdl', r)"
    by (cases "update_module measurements energy_usage i mdl")
  have head: "unmeasured mdl' = unmeasured mdl"
    using unmeasured_update_module [of measurements energy_usage i mdl] step by simp
  show ?case
  proof (cases r)
    case (Some ex)
    with step head show ?thesis by simp
  next
    case None
    obtain rest' j r' where tl: "update_modules measurements energy_usage (i + 2) rest = (rest', j, r')"
      by (cases "update_modules measurements energy_usage (i + 2) rest")
    with Cons.IH [of "i + 2"] have "map unmeasured rest' = map unmeasured rest" by simp
    with step None tl head show ?thesis by simp
  qed
qed

lemma unmeasured_update_devices:
  "map unmeasured_device (fst (update_devices measurements energy_usage i ds)) = map unmeasured_device ds"
proof (induction ds arbitrary: i)
  case Nil
  show ?case by simp
next
  case (Cons device rest)
  obtain ms j r where step: "update_modules measurements energy_usage i (d_modules device) = (ms, j, r)"
    by (cases "update_modules measurements energy_usage i (d_modules device)")
  have head: "unmeasured_device (device\<lparr>d_modules := ms\<rparr>) = unmeasured_device device"
    using unmeasured_update_modules [of measurements energy_usage i "d_modules device"] step
    by (simp add: unmeasured_device_def)
  show ?case
  proof (cases r)
    case (Some ex)
    with step head show ?thesis by simp
  next
    case None
    obtain rest' k r' where tl: "update_devices measurements energy_usage j rest = (rest', k, r')"
      by (cases "update_devices measurements energy_usage j rest")
    with Cons.IH [of j] have "map unmeasured_device rest' = map unmeasured_device rest" by simp
    with step None tl head show ?thesis by simp
  qed
qed

text \<open>
  Claim C4. Whatever lists the merge is given, and whether it returns or raises on the
  way, the device list it leaves differs from the one it was given in the four measured
  fields of the modules only: after blanking those four fields the two lists are equal,
  device by device and module by module, so ids, types, names, firmware, battery
  percentage and program lists are untouched.
\<close>

theorem merge_frame:
  "map unmeasured_device (fst (update_measured_data ds measurements energy_usage))
     = map unmeasured_device ds"
  using unmeasured_update_devices [of measurements energy_usage 0 ds]
  by (auto simp: update_measured_data_def split: prod.split)








section \<open>The lookup tables\<close>

lemma update_fresh: "k \<notin> fst ` set al \<Longrightarrow> AList.update k v al = al @ [(k, v)]"
  by (induction al) auto

lemma fold_update_distinct:
  "distinct (map k xs) \<Longrightarrow> fst ` set al \<inter> k ` set xs = {} \<Longrightarrow>
   fold (\<lambda>x d. AList.update (k x) (v x) d) xs al = al @ map (\<lambda>x. (k x, v x)) xs"
proof (induction xs arbitrary: al)
  case Nil
  show ?case by simp
next
  case (Cons x xs)
  from Cons.prems have fresh: "k x \<notin> fst ` set al" by auto
  have step: "AList.update (k x) (v x) al = al @ [(k x, v x)]"
    using fresh by (rule update_fresh)
  from Cons.prems have "distinct (map k xs)"
    and "fst ` set (al @ [(k x, v x)]) \<inter> k ` set xs = {}" by auto
  then have "fold (\<lambda>x d. AList.update (k x) (v x) d) xs (al @ [(k x, v x)])
      = (al @ [(k x, v x)]) @ map (\<lambda>x. (k x, v x)) xs"
    by (rule Cons.IH)
  with step show ?case by simp
qed

lemma dict_comprehension_distinct:
  "distinct (map k xs) \<Longrightarrow> dict_comprehension k v xs = map (\<lambda>x. (k x, v x)) xs"
  using fold_update_distinct [of k xs "[]" v] by (simp add: dict_comprehension_def)

lemma map_of_keyed:
  "distinct (map k xs) \<Longrightarrow> (map_of (map (\<lambda>x. (k x, x)) xs) key = Some y) = (y \<in> set xs \<and> k y = key)"
  by (subst map_of_eq_Some_iff) (auto simp: o_def)

text \<open>
  Claim C8. When the device ids, the module ids of all devices and the program ids of
  all modules are pairwise distinct, the three tables built by \<^verbatim>\<open>VaillantData\<close> are
  the devices, the modules and the programs of the tree, each under its id and in tree
  order: a key is bound to an object exactly when the object is in the tree and has that
  id.
\<close>

theorem lookup_tables_exact:
  assumes "distinct (map d_id ds)"
    and "distinct (map m_id (all_modules ds))"
    and "distinct (map p_id (all_programs ds))"
  shows "VaillantData_init cl ds =
       \<lparr> client = cl,
         devices = map (\<lambda>device. (d_id device, device)) ds,
         modules = map (\<lambda>mdl. (m_id mdl, mdl)) (all_modules ds),
         programs = map (\<lambda>program. (p_id program, program)) (all_programs ds) \<rparr>
     \<and> (\<forall>k device. (map_of (devices (VaillantData_init cl ds)) k = Some device)
            = (device \<in> set ds \<and> d_id device = k))
     \<and> (\<forall>k mdl. (map_of (modules (VaillantData_init cl ds)) k = Some mdl)
            = (mdl \<in> set (all_modules ds) \<and> m_id mdl = k))
     \<and> (\<forall>k program. (map_of (programs (VaillantData_init cl ds)) k = Some program)
            = (program \<in> set (all_programs ds) \<and> p_id program = k))"
  using assms
  by (simp add: VaillantData_init_def dict_comprehension_distinct map_of_keyed)

theorem lookup_tables_exact_witness:
  "distinct (map d_id [example_device]) \<and> distinct (map m_id (all_modules [example_device]))
   \<and> distinct (map p_id (all_programs [example_device]))
   \<and> devices (VaillantData_init example_client [example_device]) = [(''d1'', example_device)]
   \<and> modules (VaillantData_init example_client [example_device]) = [(''m1'', example_module)]
   \<and> programs (VaillantData_init example_client [example_device])
       = [(''p1'', \<lparr> p_id = ''p1'', p_name = ''Week'' \<rparr>)]"
  using lookup_tables_exact [of "[example_device]" example_client]
  by (simp add: all_modules_def all_programs_def example_device_def example_module_def)

section \<open>Setting up the sensors\<close>

lemma setup_as_keys:
  "async_setup_entry data =
     map (\<lambda>(did, mid). VaillantEntity_init VaillantBatterySensor did mid) (module_keys data)
   @ map (\<lambda>(did, mid). VaillantEntity_init VaillantGasWaterSensor did mid) (module_keys data)
   @ map (\<lambda>(did, mid). VaillantEntity_init VaillantGasHeatingSensor did mid) (module_keys data)"
  by (simp add: async_setup_entry_def module_keys_def map_concat o_def)

text \<open>
  Claim C6. Setup creates three entities for each module under the data's devices: for
  each of the three sensor classes, the entities of that class carry the (device id,
  module id) pairs of the modules, one each and in order. The list holds nothing else,
  and no entity has a program id.
\<close>

theorem setup_three_sensors_per_module:
  "length (async_setup_entry data) = 3 * length (all_modules (dict_values (devices data)))
   \<and> (\<forall>cls. map (\<lambda>e. (device_id e, module_id e))
              (filter (\<lambda>e. sensor e = cls) (async_setup_entry data)) = module_keys data)
   \<and> map program_id (async_setup_entry data) = replicate (3 * length (module_keys data)) None"
proof -
  have len: "length (async_setup_entry data) = 3 * length (module_keys data)"
    by (simp add: setup_as_keys)
  have kinds: "map (\<lambda>e. (device_id e, module_id e))
      (filter (\<lambda>e. sensor e = cls) (async_setup_entry data)) = module_keys data" for cls
    by (cases cls)
      (simp_all add: setup_as_keys filter_map o_def VaillantEntity_init_def split_def)
  have progs: "map program_id (async_setup_entry data)
      = replicate (3 * length (module_keys data)) None"
    by (simp add: setup_as_keys o_def VaillantEntity_init_def split_def
        map_replicate_const replicate_add [symmetric])
  have count: "length (module_keys data) = length (all_modules (dict_values (devices data)))"
    by (simp add: module_keys_def all_modules_def length_concat o_def)
  from len kinds progs count show ?thesis by simp
qed

section \<open>Reading the entities\<close>

lemma py_index_last:
  "py_index xs (int (length xs) - 1) = (if xs = [] then Inl IndexError else Inr (last xs))"
proof (cases "xs = []")
  case True
  then show ?thesis by (simp add: py_index_def)
next
  case False
  have idx: "nat (int (length xs) - 1) = length xs - 1" by arith
  from False have "0 \<le> int (length xs) - 1 \<and> int (length xs) - 1 < int (length xs)" by simp
  then have "py_index xs (int (length xs) - 1) = Inr (xs ! nat (int (length xs) - 1))"
    unfolding py_index_def by (rule if_P)
  moreover from False have "last xs = xs ! (length xs - 1)" by (rule last_conv_nth)
  ultimately show ?thesis using False idx by (simp only: if_False)
qed

lemma entity_module_found:
  "map_of (modules data) (module_id self) = Some mdl \<Longrightarrow> entity_module self data = (Inr mdl, data)"
  by (simp add: entity_module_def dict_getitem_def)

lemma entity_device_found:
  "map_of (devices data) (device_id self) = Some device \<Longrightarrow>
   entity_device self data = (Inr device, data)"
  by (simp add: entity_device_def dict_getitem_def)

lemma bind_module:
  "map_of (modules data) (module_id self) = Some mdl \<Longrightarrow>
   bind (entity_module self) f data = f mdl data"
  by (simp add: bind_def entity_module_found)

lemma bind_device:
  "map_of (devices data) (device_id self) = Some device \<Longrightarrow>
   bind (entity_device self) f data = f device data"
  by (simp add: bind_def entity_device_found)

lemma bind_outcome: "bind (outcome r) f data = (case r of Inl ex \<Rightarrow> (Inl ex, data) | Inr x \<Rightarrow> f x data)"
  by (simp add: bind_def outcome_def split: sum.split)

text \<open>
  Claim C9. For an entity whose module is in the module table: the gas water sensor's
  and the gas heating sensor's \<^verbatim>\<open>native_value\<close> is the string form of the last
  element of the module's usage list when that list is not empty, and raises
  \<^verbatim>\<open>IndexError\<close> (index \<open>-1\<close> of an empty list) when it is empty.
\<close>

theorem gas_native_value_last_or_fails:
  assumes "map_of (modules data) (module_id self) = Some mdl"
  shows "native_value str_float (self\<lparr>sensor := VaillantGasWaterSensor\<rparr>) data =
       ((if gas_water_usage (measured mdl) = [] then Inl IndexError
         else Inr (str_float (last (gas_water_usage (measured mdl))))), data)
     \<and> native_value str_float (self\<lparr>sensor := VaillantGasHeatingSensor\<rparr>) data =
       ((if gas_heating_usage (measured mdl) = [] then Inl IndexError
         else Inr (str_float (last (gas_heating_usage (measured mdl))))), data)"
  using assms
  by (simp add: native_value_def bind_module bind_outcome py_index_last returns_def)



lemma example_module_found: "map_of (modules example_data) ''m1'' = Some example_module"
  by (simp add: example_data_def VaillantData_init_def dict_comprehension_def
      all_modules_def example_device_def example_module_def)

theorem gas_native_value_last_or_fails_witness:
  "map_of (modules example_data) (module_id (VaillantEntity_init VaillantGasWaterSensor ''d1'' ''m1''))
     = Some example_module
   \<and> native_value example_str_float (VaillantEntity_init VaillantGasWaterSensor ''d1'' ''m1'')
        example_data = (Inr (example_str_float 7), example_data)
   \<and> native_value example_str_float (VaillantEntity_init VaillantGasHeatingSensor ''d1'' ''m1'')
        example_data = (Inr (example_str_float 5), example_data)
   \<and> native_value example_str_float (VaillantEntity_init VaillantGasWaterSensor ''d1'' ''m1'')
        example_empty_data = (Inl IndexError, example_empty_data)"
proof -
  have found: "map_of (modules example_data)
      (module_id (VaillantEntity_init VaillantGasWaterSensor ''d1'' ''m1'')) = Some example_module"
    using example_module_found by (simp add: VaillantEntity_init_def)
  have found': "map_of (modules example_empty_data)
      (module_id (VaillantEntity_init VaillantGasWaterSensor ''d1'' ''m1''))
      = Some (example_module\<lparr>measured := (measured example_module)\<lparr>gas_water_usage := []\<rparr>\<rparr>)"
    by (simp add: example_empty_data_def VaillantEntity_init_def)
  have full: "native_value example_str_float (VaillantEntity_init VaillantGasWaterSensor ''d1'' ''m1'')
        example_data = (Inr (example_str_float 7), example_data)
   \<and> native_value example_str_float (VaillantEntity_init VaillantGasHeatingSensor ''d1'' ''m1'')
        example_data = (Inr (example_str_float 5), example_data)"
    using gas_native_value_last_or_fails [OF found, of example_str_float]
    by (simp add: VaillantEntity_init_def example_module_def)
  have empty: "native_value example_str_float
      (VaillantEntity_init VaillantGasWaterSensor ''d1'' ''m1'') example_empty_data
      = (Inl IndexError, example_empty_data)"
    using gas_native_value_last_or_fails [OF found', of example_str_float]
    by (simp add: VaillantEntity_init_def)
  from found full empty show ?thesis by simp
qed

lemma snd_bind:
  assumes "\<And>d. snd (p d) = d" and "\<And>x d. snd (f x d) = d"
  shows "snd (bind p f data) = data"
proof (cases "p data")
  case (Pair r data')
  with assms(1) [of data] have same: "data' = data" by simp
  show ?thesis
  proof (cases r)
    case (Inl ex)
    with Pair same show ?thesis by (simp add: bind_def)
  next
    case (Inr x)
    with Pair same assms(2) [of x data] show ?thesis by (simp add: bind_def)
  qed
qed

lemma snd_returns: "snd (returns x data) = data"
  by (simp add: returns_def)

lemma snd_outcome: "snd (outcome r data) = data"
  by (simp add: outcome_def)

lemma snd_entity_module: "snd (entity_module self data) = data"
  by (simp add: entity_module_def)

lemma snd_entity_device: "snd (entity_device self data) = data"
  by (simp add: entity_device_def)

lemma snd_entity_program: "snd (entity_program self data) = data"
  by (simp add: entity_program_def split: option.split)

lemmas snd_property = snd_bind snd_returns snd_outcome snd_entity_module snd_entity_device

lemma snd_device_info: "snd (device_info DOMAIN self data) = data"
  unfolding device_info_def by (intro snd_property)

lemma snd_unique_id: "snd (unique_id self data) = data"
  unfolding unique_id_def by (cases "sensor self") (simp_all add: snd_property)

lemma snd_entity_name: "snd (entity_name self data) = data"
  unfolding entity_name_def by (cases "sensor self") (simp_all add: snd_property)

lemma snd_native_value: "snd (native_value str_float self data) = data"
  unfolding native_value_def by (cases "sensor self") (simp_all add: snd_property)

lemma snd_extra_state_attributes: "snd (extra_state_attributes str_float self data) = data"
  unfolding extra_state_attributes_def by (cases "sensor self") (simp_all add: snd_property)


text \<open>
  Claim C5. Reading a property of an entity leaves the coordinator's data as it was,
  whether the read returns or raises. \<^verbatim>\<open>_program\<close> is \<^verbatim>\<open>None\<close> without a
  program id and the program stored under the id otherwise. When the entity's device
  and module are in the tables, \<^verbatim>\<open>_device\<close> and \<^verbatim>\<open>_module\<close> are the stored
  objects and \<^verbatim>\<open>device_info\<close>, \<^verbatim>\<open>unique_id\<close>, \<^verbatim>\<open>name\<close>,
  \<^verbatim>\<open>native_value\<close> and \<^verbatim>\<open>extra_state_attributes\<close> are built from their
  fields: the battery sensor's value is the string form of the module's battery
  percentage.
\<close>

theorem entity_properties_read_only:
  "(snd (entity_device self data) = data \<and> snd (entity_module self data) = data
    \<and> snd (entity_program self data) = data \<and> snd (device_info DOMAIN self data) = data
    \<and> snd (unique_id self data) = data \<and> snd (entity_name self data) = data
    \<and> snd (native_value str_float self data) = data
    \<and> snd (extra_state_attributes str_float self data) = data)
   \<and> fst (entity_program self data) =
       (case program_id self of
          None \<Rightarrow> Inr None
        | Some pid \<Rightarrow>
            (case map_of (programs data) pid of
               None \<Rightarrow> Inl (KeyError pid)
             | Some program \<Rightarrow> Inr (Some program)))
   \<and> (map_of (devices data) (device_id self) = Some device
        \<and> map_of (modules data) (module_id self) = Some mdl \<longrightarrow>
      fst (entity_device self data) = Inr device
    \<and> fst (entity_module self data) = Inr mdl
    \<and> fst (device_info DOMAIN self data) =
        Inr \<lparr> identifiers = {(DOMAIN, m_id mdl)}, name = module_name mdl,
              sw_version = firmware mdl, manufacturer = d_type device,
              via_device = (DOMAIN, d_id device) \<rparr>
    \<and> fst (unique_id self data) =
        Inr (case sensor self of
               VaillantBatterySensor \<Rightarrow> m_id mdl
             | VaillantGasWaterSensor \<Rightarrow> m_id mdl @ ''_gas_water''
             | VaillantGasHeatingSensor \<Rightarrow> m_id mdl @ ''_gas_heating'')
    \<and> fst (entity_name self data) =
        Inr (case sensor self of
               VaillantBatterySensor \<Rightarrow> module_name mdl @ '' Battery''
             | VaillantGasWaterSensor \<Rightarrow> module_name mdl @ '' Water Gas usage''
             | VaillantGasHeatingSensor \<Rightarrow> module_name mdl @ '' Heating Gas usage'')
    \<and> fst (native_value str_float self data) =
        (case sensor self of
           VaillantBatterySensor \<Rightarrow> Inr (str_int (battery_percent mdl))
         | VaillantGasWaterSensor \<Rightarrow>
             if gas_water_usage (measured mdl) = [] then Inl IndexError
             else Inr (str_float (last (gas_water_usage (measured mdl))))
         | VaillantGasHeatingSensor \<Rightarrow>
             if gas_heating_usage (measured mdl) = [] then Inl IndexError
             else Inr (str_float (last (gas_heating_usage (measured mdl)))))
    \<and> fst (extra_state_attributes str_float self data) =
        Inr (case sensor self of
               VaillantBatterySensor \<Rightarrow> None
             | VaillantGasWaterSensor \<Rightarrow>
                 Some [(''historical_values'',
                        str_list str_float (gas_water_usage (measured mdl)))]
             | VaillantGasHeatingSensor \<Rightarrow>
                 Some [(''historical_values'',
                        str_list str_float (gas_heating_usage (measured mdl)))]))"
proof -
  have frame: "snd (entity_device self data) = data \<and> snd (entity_module self data) = data
    \<and> snd (entity_program self data) = data \<and> snd (device_info DOMAIN self data) = data
    \<and> snd (unique_id self data) = data \<and> snd (entity_name self data) = data
    \<and> snd (native_value str_float self data) = data
    \<and> snd (extra_state_attributes str_float self data) = data"
    by (simp only: snd_entity_device snd_entity_module snd_entity_program snd_device_info
        snd_unique_id snd_entity_name snd_native_value snd_extra_state_attributes simp_thms)
  have prog: "fst (entity_program self data) =
       (case program_id self of
          None \<Rightarrow> Inr None
        | Some pid \<Rightarrow>
            (case map_of (programs data) pid of
               None \<Rightarrow> Inl (KeyError pid)
             | Some program \<Rightarrow> Inr (Some program)))"
    by (simp add: entity_program_def dict_getitem_def split: option.split)
  {
    assume dev: "map_of (devices data) (device_id self) = Some device"
      and md: "map_of (modules data) (module_id self) = Some mdl"
    have v1: "fst (entity_device self data) = Inr device"
      using dev by (simp add: entity_device_found)
    have v2: "fst (entity_module self data) = Inr mdl"
      using md by (simp add: entity_module_found)
    have v3: "fst (device_info DOMAIN self data) =
        Inr \<lparr> identifiers = {(DOMAIN, m_id mdl)}, name = module_name mdl,
              sw_version = firmware mdl, manufacturer = d_type device,
              via_device = (DOMAIN, d_id device) \<rparr>"
      using dev md by (simp add: device_info_def bind_module bind_device returns_def)
    have v4: "fst (unique_id self data) =
        Inr (case sensor self of
               VaillantBatterySensor \<Rightarrow> m_id mdl
             | VaillantGasWaterSensor \<Rightarrow> m_id mdl @ ''_gas_water''
             | VaillantGasHeatingSensor \<Rightarrow> m_id mdl @ ''_gas_heating'')"
      using md by (cases "sensor self") (simp_all add: unique_id_def bind_module returns_def)
    have v5: "fst (entity_name self data) =
        Inr (case sensor self of
               VaillantBatterySensor \<Rightarrow> module_name mdl @ '' Battery''
             | VaillantGasWaterSensor \<Rightarrow> module_name mdl @ '' Water Gas usage''
             | VaillantGasHeatingSensor \<Rightarrow> module_name mdl @ '' Heating Gas usage'')"
      using md by (cases "sensor self") (simp_all add: entity_name_def bind_module returns_def)
    have v6: "fst (native_value str_float self data) =
        (case sensor self of
           VaillantBatterySensor \<Rightarrow> Inr (str_int (battery_percent mdl))
         | VaillantGasWaterSensor \<Rightarrow>
             if gas_water_usage (measured mdl) = [] then Inl IndexError
             else Inr (str_float (last (gas_water_usage (measured mdl))))
         | VaillantGasHeatingSensor \<Rightarrow>
             if gas_heating_usage (measured mdl) = [] then Inl IndexError
             else Inr (str_float (last (gas_heating_usage (measured mdl)))))"
      using md
      by (cases "sensor self")
        (simp_all add: native_value_def bind_module bind_outcome py_index_last returns_def)
    have v7: "fst (extra_state_attributes str_float self data) =
        Inr (case sensor self of
               VaillantBatterySensor \<Rightarrow> None
             | VaillantGasWaterSensor \<Rightarrow>
                 Some [(''historical_values'',
                        str_list str_float (gas_water_usage (measured mdl)))]
             | VaillantGasHeatingSensor \<Rightarrow>
                 Some [(''historical_values'',
                        str_list str_float (gas_heating_usage (measured mdl)))])"
      using md
      by (cases "sensor self")
        (simp_all add: extra_state_attributes_def bind_module returns_def)
    note v1 v2 v3 v4 v5 v6 v7
  }
  with frame prog show ?thesis by blast
qed


lemma example_device_found: "map_of (devices example_data) ''d1'' = Some example_device"
  by (simp add: example_data_def VaillantData_init_def dict_comprehension_def
      example_device_def)

theorem entity_properties_read_only_witness:
  "map_of (devices example_data)
      (device_id (VaillantEntity_init VaillantBatterySensor ''d1'' ''m1'')) = Some example_device
   \<and> map_of (modules example_data)
      (module_id (VaillantEntity_init VaillantBatterySensor ''d1'' ''m1'')) = Some example_module
   \<and> entity_device (VaillantEntity_init VaillantBatterySensor ''d1'' ''m1'') example_data
       = (Inr example_device, example_data)
   \<and> native_value example_str_float (VaillantEntity_init VaillantBatterySensor ''d1'' ''m1'')
        example_data = (Inr ''87'', example_data)
   \<and> entity_name (VaillantEntity_init VaillantBatterySensor ''d1'' ''m1'') example_data
       = (Inr ''Living room Battery'', example_data)"
proof -
  have dev: "map_of (devices example_data)
      (device_id (VaillantEntity_init VaillantBatterySensor ''d1'' ''m1'')) = Some example_device"
    using example_device_found by (simp add: VaillantEntity_init_def)
  have md: "map_of (modules example_data)
      (module_id (VaillantEntity_init VaillantBatterySensor ''d1'' ''m1'')) = Some example_module"
    using example_module_found by (simp add: VaillantEntity_init_def)
  have eighty_seven: "str_int (battery_percent example_module) = ''87''"
    by (simp add: example_module_def str_int_def)
  have kind: "sensor (VaillantEntity_init VaillantBatterySensor ''d1'' ''m1'') = VaillantBatterySensor"
    by (simp add: VaillantEntity_init_def)
  have nm: "module_name example_module = ''Living room''"
    by (simp add: example_module_def)
  from entity_properties_read_only [of "VaillantEntity_init VaillantBatterySensor ''d1'' ''m1''"
      example_data "''vaillant_vsmart''" example_str_float example_device example_module]
    dev md eighty_seven kind nm
  show ?thesis by (simp add: prod_eq_iff)
qed

section \<open>A poll cycle\<close>

lemma collect_Inr: "collect rs = Inr xs \<Longrightarrow> rs = map Inr xs"
proof (induction rs arbitrary: xs)
  case Nil
  then show ?case by simp
next
  case (Cons r rs)
  show ?case
  proof (cases r)
    case (Inl ex)
    with Cons.prems show ?thesis by simp
  next
    case (Inr x)
    with Cons.prems obtain ys where ys: "collect rs = Inr ys" and xs: "xs = x # ys"
      by (auto split: sum.splits)
    from Cons.IH [OF ys] Inr xs show ?thesis by simp
  qed
qed

lemma collect_Inl: "collect rs = Inl ex \<Longrightarrow> Inl ex \<in> set rs"
proof (induction rs)
  case Nil
  then show ?case by simp
next
  case (Cons r rs)
  then show ?case by (cases r) (auto split: sum.splits)
qed

lemma length_pairs: "length (concat (map (\<lambda>m. [a m, b m]) ms)) = 2 * length ms"
  by (induction ms) simp_all

lemma length_temperature_tasks:
  "length (temperature_tasks start_time ds) = 2 * length (all_modules ds)"
  by (induction ds) (simp_all add: temperature_tasks_def all_modules_def length_pairs)

lemma length_gas_usage_tasks:
  "length (gas_usage_tasks start_time ds) = 2 * length (all_modules ds)"
  by (induction ds) (simp_all add: gas_usage_tasks_def all_modules_def length_pairs)

lemma update_module_write:
  assumes "i + 1 < length measurements" and "i + 1 < length energy_usage"
  shows "update_module measurements energy_usage i mdl =
     (write_measured (measurements ! i) (measurements ! (i + 1))
        (energy_usage ! i) (energy_usage ! (i + 1)) mdl, None)"
  using assms by (simp add: update_module_in_range write_measured_def)

lemma update_modules_aligned:
  assumes "length pre_m = i" and "length pre_e = i"
  shows "update_modules
       (pre_m @ concat (map (\<lambda>m. [t m, s m]) ms) @ post_m)
       (pre_e @ concat (map (\<lambda>m. [h m, w m]) ms) @ post_e) i ms
     = (map (\<lambda>m. write_measured (t m) (s m) (h m) (w m) m) ms, i + 2 * length ms, None)"
  using assms
proof (induction ms arbitrary: pre_m pre_e i)
  case Nil
  show ?case by simp
next
  case (Cons m ms)
  let ?M = "pre_m @ concat (map (\<lambda>m. [t m, s m]) (m # ms)) @ post_m"
  let ?E = "pre_e @ concat (map (\<lambda>m. [h m, w m]) (m # ms)) @ post_e"
  have M: "?M = (pre_m @ [t m, s m]) @ concat (map (\<lambda>m. [t m, s m]) ms) @ post_m" by simp
  have E: "?E = (pre_e @ [h m, w m]) @ concat (map (\<lambda>m. [h m, w m]) ms) @ post_e" by simp
  have in_range: "i + 1 < length ?M" "i + 1 < length ?E"
    using Cons.prems by simp_all
  have at: "?M ! i = t m" "?M ! (i + 1) = s m" "?E ! i = h m" "?E ! (i + 1) = w m"
    using Cons.prems by (simp_all add: nth_append)
  have head: "update_module ?M ?E i m = (write_measured (t m) (s m) (h m) (w m) m, None)"
    using update_module_write [OF in_range, of m] at by simp
  have "length (pre_m @ [t m, s m]) = i + 2" "length (pre_e @ [h m, w m]) = i + 2"
    using Cons.prems by simp_all
  then have tail: "update_modules ?M ?E (i + 2) ms
      = (map (\<lambda>m. write_measured (t m) (s m) (h m) (w m) m) ms, (i + 2) + 2 * length ms, None)"
    unfolding M E by (rule Cons.IH)
  from head tail show ?case by simp
qed

lemma update_devices_aligned:
  assumes "length pre_m = i" and "length pre_e = i"
  shows "update_devices
       (pre_m @ concat (map (\<lambda>d. concat (map (\<lambda>m. [t d m, s d m]) (d_modules d))) ds) @ post_m)
       (pre_e @ concat (map (\<lambda>d. concat (map (\<lambda>m. [h d m, w d m]) (d_modules d))) ds) @ post_e)
       i ds
     = (map (\<lambda>d. d\<lparr>d_modules :=
              map (\<lambda>m. write_measured (t d m) (s d m) (h d m) (w d m) m) (d_modules d)\<rparr>) ds,
        i + 2 * length (all_modules ds), None)"
  using assms
proof (induction ds arbitrary: pre_m pre_e i)
  case Nil
  show ?case by (simp add: all_modules_def)
next
  case (Cons d ds)
  let ?tm = "concat (map (\<lambda>m. [t d m, s d m]) (d_modules d))"
  let ?te = "concat (map (\<lambda>m. [h d m, w d m]) (d_modules d))"
  let ?rm = "concat (map (\<lambda>d. concat (map (\<lambda>m. [t d m, s d m]) (d_modules d))) ds)"
  let ?re = "concat (map (\<lambda>d. concat (map (\<lambda>m. [h d m, w d m]) (d_modules d))) ds)"
  let ?M = "pre_m @ concat (map (\<lambda>d. concat (map (\<lambda>m. [t d m, s d m]) (d_modules d))) (d # ds))
    @ post_m"
  let ?E = "pre_e @ concat (map (\<lambda>d. concat (map (\<lambda>m. [h d m, w d m]) (d_modules d))) (d # ds))
    @ post_e"
  let ?j = "i + 2 * length (d_modules d)"
  have M1: "?M = pre_m @ ?tm @ (?rm @ post_m)" by simp
  have E1: "?E = pre_e @ ?te @ (?re @ post_e)" by simp
  have M2: "?M = (pre_m @ ?tm) @ ?rm @ post_m" by simp
  have E2: "?E = (pre_e @ ?te) @ ?re @ post_e" by simp
  have head: "update_modules ?M ?E i (d_modules d)
      = (map (\<lambda>m. write_measured (t d m) (s d m) (h d m) (w d m) m) (d_modules d), ?j, None)"
    unfolding M1 E1 using Cons.prems by (rule update_modules_aligned)
  have "length (pre_m @ ?tm) = ?j" "length (pre_e @ ?te) = ?j"
    using Cons.prems by (simp_all add: length_pairs)
  then have tail: "update_devices ?M ?E ?j ds
      = (map (\<lambda>d. d\<lparr>d_modules :=
              map (\<lambda>m. write_measured (t d m) (s d m) (h d m) (w d m) m) (d_modules d)\<rparr>) ds,
         ?j + 2 * length (all_modules ds), None)"
    unfolding M2 E2 by (rule Cons.IH)
  have count: "?j + 2 * length (all_modules ds) = i + 2 * length (all_modules (d # ds))"
    by (simp add: all_modules_def)
  have "update_devices ?M ?E i (d # ds)
      = (d\<lparr>d_modules :=
              map (\<lambda>m. write_measured (t d m) (s d m) (h d m) (w d m) m) (d_modules d)\<rparr>
         # map (\<lambda>d. d\<lparr>d_modules :=
              map (\<lambda>m. write_measured (t d m) (s d m) (h d m) (w d m) m) (d_modules d)\<rparr>) ds,
         ?j + 2 * length (all_modules ds), None)"
    by (simp only: update_devices.simps head tail prod.case option.case)
  with count show ?case by simp
qed

lemma map_temperature_tasks:
  "map f (temperature_tasks start_time ds) =
     concat (map (\<lambda>d. concat (map (\<lambda>m.
       [f (AsyncGetMeasure (d_id d) (m_id m) TEMPERATURE Scale_MAX start_time),
        f (AsyncGetMeasure (d_id d) (m_id m) SETPOINT_TEMPERATURE Scale_MAX start_time)])
       (d_modules d))) ds)"
  by (simp add: temperature_tasks_def map_concat o_def)

lemma map_gas_usage_tasks:
  "map f (gas_usage_tasks start_time ds) =
     concat (map (\<lambda>d. concat (map (\<lambda>m.
       [f (AsyncGetMeasure (d_id d) (m_id m) SUM_ENERGY_GAS_HEATING Scale_DAY start_time),
        f (AsyncGetMeasure (d_id d) (m_id m) SUM_ENERGY_GAS_WATER Scale_DAY start_time)])
       (d_modules d))) ds)"
  by (simp add: gas_usage_tasks_def map_concat o_def)

lemma answers_of_collect:
  assumes "collect (map g tasks) = Inr xs"
  shows "xs = map (\<lambda>t. projr (g t)) tasks"
proof -
  from assms have "map g tasks = map Inr xs" by (rule collect_Inr)
  then have "map projr (map g tasks) = map projr (map Inr xs)" by simp
  then show ?thesis by (simp add: o_def)
qed

lemma merge_of_answers:
  assumes temp: "collect (map (perform cl) (temperature_tasks (now1 - 3600) ds)) = Inr measurements"
    and gas: "collect (map (perform cl) (gas_usage_tasks (now2 - 604800) ds)) = Inr energy_usage"
  shows "update_measured_data ds measurements energy_usage
     = (map (merged_device cl now1 now2) ds, None)"
proof -
  have ms: "measurements = map (\<lambda>t. projr (perform cl t)) (temperature_tasks (now1 - 3600) ds)"
    using temp by (rule answers_of_collect)
  have es: "energy_usage = map (\<lambda>t. projr (perform cl t)) (gas_usage_tasks (now2 - 604800) ds)"
    using gas by (rule answers_of_collect)
  have "update_devices ([] @ measurements @ []) ([] @ energy_usage @ []) 0 ds
      = (map (merged_device cl now1 now2) ds, 0 + 2 * length (all_modules ds), None)"
    unfolding ms es map_temperature_tasks map_gas_usage_tasks merged_device_def [abs_def]
      merged_module_def [abs_def] perform.simps
    by (rule update_devices_aligned) simp_all
  then show ?thesis by (simp add: update_measured_data_def)
qed

lemma gather_result:
  "gather tasks c = (r, c') \<longleftrightarrow>
     r = collect (map (perform (c_client c)) tasks) \<and> c' = c\<lparr>sent := sent c @ map GetMeasure tasks\<rparr>"
  by (auto simp: gather_def)

text \<open>
  Claim C10. When both fetch routines return, each gathered list has exactly two
  entries per module, and they are the answers to the routine's tasks in task order,
  which is the device-then-module order of the merge. The merge then raises nothing
  (no index is out of range) and leaves every module with the values merged from the
  answers to its own four requests.
\<close>

theorem gathered_lists_aligned:
  assumes "get_temperature_measurements_for_all_devices now1 ds c = (Inr measurements, c2)"
    and "get_energy_usage_measurements_for_all_devices now2 ds c2 = (Inr energy_usage, c3)"
  shows "length measurements = 2 * length (all_modules ds)
     \<and> length energy_usage = 2 * length (all_modules ds)
     \<and> map Inr measurements = map (perform (c_client c)) (temperature_tasks (now1 - 3600) ds)
     \<and> map Inr energy_usage = map (perform (c_client c)) (gas_usage_tasks (now2 - 604800) ds)
     \<and> update_measured_data ds measurements energy_usage
         = (map (merged_device (c_client c) now1 now2) ds, None)"
proof -
  from assms(1) have temp:
    "collect (map (perform (c_client c)) (temperature_tasks (now1 - 3600) ds)) = Inr measurements"
    and c2: "c2 = c\<lparr>sent := sent c @ map GetMeasure (temperature_tasks (now1 - 3600) ds)\<rparr>"
    by (simp_all add: get_temperature_measurements_for_all_devices_def gather_result)
  from c2 have same: "c_client c2 = c_client c" by simp
  from assms(2) same have gas:
    "collect (map (perform (c_client c)) (gas_usage_tasks (now2 - 604800) ds)) = Inr energy_usage"
    by (simp add: get_energy_usage_measurements_for_all_devices_def gather_result)
  have m: "map Inr measurements = map (perform (c_client c)) (temperature_tasks (now1 - 3600) ds)"
    using collect_Inr [OF temp] by simp
  have e: "map Inr energy_usage = map (perform (c_client c)) (gas_usage_tasks (now2 - 604800) ds)"
    using collect_Inr [OF gas] by simp
  have lm: "length measurements = 2 * length (all_modules ds)"
    using arg_cong [OF m, of length] by (simp add: length_temperature_tasks)
  have le: "length energy_usage = 2 * length (all_modules ds)"
    using arg_cong [OF e, of length] by (simp add: length_gas_usage_tasks)
  from lm le m e merge_of_answers [OF temp gas] show ?thesis by simp
qed

theorem gathered_lists_aligned_witness:
  "fst (get_temperature_measurements_for_all_devices 0 [example_device] example_coordinator)
     = Inr [[item [21, 22]], []]
   \<and> fst (get_energy_usage_measurements_for_all_devices 0 [example_device]
         (snd (get_temperature_measurements_for_all_devices 0 [example_device]
            example_coordinator)))
     = Inr [[item [100, 200]], [item []]]
   \<and> update_measured_data [example_device] [[item [21, 22]], []] [[item [100, 200]], [item []]]
     = ([example_device\<lparr>d_modules := [example_module\<lparr>measured :=
           \<lparr> temperature = 22, setpoint_temp = 20, gas_heating_usage = [100, 200],
             gas_water_usage = [7] \<rparr>\<rparr>]\<rparr>], None)"
proof -
  let ?c2 = "snd (get_temperature_measurements_for_all_devices 0 [example_device]
    example_coordinator)"
  let ?c3 = "snd (get_energy_usage_measurements_for_all_devices 0 [example_device] ?c2)"
  have modules: "d_modules example_device = [example_module]"
    by (simp add: example_device_def)
  have temp: "get_temperature_measurements_for_all_devices 0 [example_device] example_coordinator
      = (Inr [[item [21, 22]], []], ?c2)"
    by (simp add: prod_eq_iff get_temperature_measurements_for_all_devices_def gather_def
        temperature_tasks_def modules example_coordinator_def example_client_def)
  have gas: "get_energy_usage_measurements_for_all_devices 0 [example_device] ?c2
      = (Inr [[item [100, 200]], [item []]], ?c3)"
    by (simp add: prod_eq_iff get_energy_usage_measurements_for_all_devices_def
        get_temperature_measurements_for_all_devices_def gather_def
        gas_usage_tasks_def modules example_coordinator_def example_client_def)
  have merged: "map (merged_device (c_client example_coordinator) 0 0) [example_device]
      = [example_device\<lparr>d_modules := [example_module\<lparr>measured :=
           \<lparr> temperature = 22, setpoint_temp = 20, gas_heating_usage = [100, 200],
             gas_water_usage = [7] \<rparr>\<rparr>]\<rparr>]"
    by (simp add: merged_device_def merged_module_def write_measured_def modules
        example_coordinator_def example_client_def get_measurement_value_def
        get_energy_measurement_value_def item_def example_module_def)
  have t1: "fst (get_temperature_measurements_for_all_devices 0 [example_device]
      example_coordinator) = Inr [[item [21, 22]], []]"
    using arg_cong [OF temp, of fst] by (simp only: fst_conv)
  have g1: "fst (get_energy_usage_measurements_for_all_devices 0 [example_device] ?c2)
      = Inr [[item [100, 200]], [item []]]"
    using arg_cong [OF gas, of fst] by (simp only: fst_conv)
  from gathered_lists_aligned [OF temp gas] merged
  have "update_measured_data [example_device] [[item [21, 22]], []] [[item [100, 200]], [item []]]
     = ([example_device\<lparr>d_modules := [example_module\<lparr>measured :=
           \<lparr> temperature = 22, setpoint_temp = 20, gas_heating_usage = [100, 200],
             gas_water_usage = [7] \<rparr>\<rparr>]\<rparr>], None)"
    by simp
  with t1 g1 show ?thesis by (intro conjI)
qed

subsection \<open>The four ways through the update method\<close>

lemma update_method_thermostats_fail:
  assumes "async_get_thermostats_data (c_client c) = Inl ex"
  shows "update_method now1 now2 c = (Inl (reraise ex), c\<lparr>sent := sent c @ [GetThermostatsData]\<rparr>)"
  using assms by (simp add: update_method_def)

lemma update_method_temperature_fail:
  assumes "async_get_thermostats_data (c_client c) = Inr ds"
    and "collect (map (perform (c_client c)) (temperature_tasks (now1 - 3600) ds)) = Inl ex"
  shows "update_method now1 now2 c =
     (Inl (reraise ex),
      c\<lparr>sent := sent c @ GetThermostatsData #
         map GetMeasure (temperature_tasks (now1 - 3600) ds)\<rparr>)"
  using assms
  by (simp add: update_method_def get_temperature_measurements_for_all_devices_def gather_def)

lemma update_method_energy_fail:
  assumes "async_get_thermostats_data (c_client c) = Inr ds"
    and "collect (map (perform (c_client c)) (temperature_tasks (now1 - 3600) ds)) = Inr ms"
    and "collect (map (perform (c_client c)) (gas_usage_tasks (now2 - 604800) ds)) = Inl ex"
  shows "update_method now1 now2 c =
     (Inl (reraise ex),
      c\<lparr>sent := sent c @ GetThermostatsData #
         map GetMeasure (temperature_tasks (now1 - 3600) ds @ gas_usage_tasks (now2 - 604800) ds)\<rparr>)"
  using assms
  by (simp add: update_method_def get_temperature_measurements_for_all_devices_def
      get_energy_usage_measurements_for_all_devices_def gather_def)

lemma update_method_success:
  assumes "async_get_thermostats_data (c_client c) = Inr ds"
    and "collect (map (perform (c_client c)) (temperature_tasks (now1 - 3600) ds)) = Inr ms"
    and "collect (map (perform (c_client c)) (gas_usage_tasks (now2 - 604800) ds)) = Inr es"
  shows "update_method now1 now2 c =
     (Inr (VaillantData_init (c_client c) (map (merged_device (c_client c) now1 now2) ds)),
      c\<lparr>sent := sent c @ GetThermostatsData #
         map GetMeasure (temperature_tasks (now1 - 3600) ds @ gas_usage_tasks (now2 - 604800) ds)\<rparr>)"
  using assms merge_of_answers [OF assms(2) assms(3)]
  by (simp add: update_method_def get_temperature_measurements_for_all_devices_def
      get_energy_usage_measurements_for_all_devices_def gather_def)

lemma isl_collect: "isl (collect rs) = list_ex isl rs"
proof (induction rs)
  case Nil
  show ?case by simp
next
  case (Cons r rs)
  then show ?case by (cases r) (auto split: sum.splits)
qed

lemma issued_append:
  "sent (snd (update_method now1 now2 c)) = sent c @ xs \<Longrightarrow> issued now1 now2 c = xs"
  by (simp add: issued_def)

lemma issued_after_thermostats:
  assumes "async_get_thermostats_data (c_client c) = Inr ds"
  shows "issued now1 now2 c =
     GetThermostatsData # map GetMeasure (temperature_tasks (now1 - 3600) ds @
       (if list_ex (\<lambda>t. isl (perform (c_client c) t)) (temperature_tasks (now1 - 3600) ds)
        then [] else gas_usage_tasks (now2 - 604800) ds))"
proof (cases "collect (map (perform (c_client c)) (temperature_tasks (now1 - 3600) ds))")
  case (Inl ex)
  then have "list_ex (\<lambda>t. isl (perform (c_client c) t)) (temperature_tasks (now1 - 3600) ds)"
    using isl_collect [of "map (perform (c_client c)) (temperature_tasks (now1 - 3600) ds)"]
    by (simp add: list_ex_iff)
  with update_method_temperature_fail [OF assms Inl, of now2] show ?thesis
    by (intro issued_append) simp
next
  case (Inr ms)
  then have ok: "\<not> list_ex (\<lambda>t. isl (perform (c_client c) t)) (temperature_tasks (now1 - 3600) ds)"
    using isl_collect [of "map (perform (c_client c)) (temperature_tasks (now1 - 3600) ds)"]
    by (simp add: list_ex_iff)
  show ?thesis
  proof (cases "collect (map (perform (c_client c)) (gas_usage_tasks (now2 - 604800) ds))")
    case (Inl ex)
    from update_method_energy_fail [OF assms Inr Inl] ok show ?thesis
      by (intro issued_append) simp
  next
    case es: (Inr es)
    from update_method_success [OF assms Inr es] ok show ?thesis
      by (intro issued_append) simp
  qed
qed

text \<open>
  Claim C7, amended. For the device list the thermostats-data request returns, a poll
  cycle issues that one request, then the two temperature requests of every module,
  and then, only when no temperature request raises, the two energy requests of every
  module: \<open>1 + 4 n\<close> requests for \<open>n\<close> modules when the temperature batch goes
  through, \<open>1 + 2 n\<close> when it does not, and never more than \<open>1 + 4 n\<close>.
\<close>

theorem fan_out_bounded:
  assumes "async_get_thermostats_data (c_client c) = Inr ds"
  shows "issued now1 now2 c =
       GetThermostatsData # map GetMeasure (temperature_tasks (now1 - 3600) ds @
         (if list_ex (\<lambda>t. isl (perform (c_client c) t)) (temperature_tasks (now1 - 3600) ds)
          then [] else gas_usage_tasks (now2 - 604800) ds))
     \<and> length (issued now1 now2 c) =
         1 + (if list_ex (\<lambda>t. isl (perform (c_client c) t)) (temperature_tasks (now1 - 3600) ds)
              then 2 else 4) * length (all_modules ds)
     \<and> length (issued now1 now2 c) \<le> 1 + 4 * length (all_modules ds)"
  by (simp add: issued_after_thermostats [OF assms] length_temperature_tasks
      length_gas_usage_tasks)

lemma example_thermostats:
  "async_get_thermostats_data (c_client example_coordinator) = Inr [example_device]"
  by (simp add: example_coordinator_def example_client_def)

lemma failing_thermostats:
  "async_get_thermostats_data (c_client (failing_coordinator ex)) = Inr [example_device]"
  by (simp add: failing_coordinator_def failing_client_def)

lemma example_modules: "d_modules example_device = [example_module]"
  by (simp add: example_device_def)

lemma example_ids: "d_id example_device = ''d1''" "m_id example_module = ''m1''"
  by (simp_all add: example_device_def example_module_def)

theorem fan_out_bounded_witness:
  "async_get_thermostats_data (c_client example_coordinator) = Inr [example_device]
   \<and> issued 0 0 example_coordinator =
     [GetThermostatsData,
      GetMeasure (AsyncGetMeasure ''d1'' ''m1'' TEMPERATURE Scale_MAX (- 3600)),
      GetMeasure (AsyncGetMeasure ''d1'' ''m1'' SETPOINT_TEMPERATURE Scale_MAX (- 3600)),
      GetMeasure (AsyncGetMeasure ''d1'' ''m1'' SUM_ENERGY_GAS_HEATING Scale_DAY (- 604800)),
      GetMeasure (AsyncGetMeasure ''d1'' ''m1'' SUM_ENERGY_GAS_WATER Scale_DAY (- 604800))]"
  using fan_out_bounded [OF example_thermostats, where ?now1.0 = 0 and ?now2.0 = 0] example_thermostats
  by (simp add: temperature_tasks_def gas_usage_tasks_def example_modules example_ids
      example_coordinator_def example_client_def)

text \<open>
  Claim C7, as stated, asks for exactly four measurement requests per module in every
  poll cycle. With one device of one module and a client whose measurement requests
  raise, the cycle ends after the temperature batch: three requests, not five.
\<close>

theorem fan_out_exact_counterexample:
  "async_get_thermostats_data (c_client (failing_coordinator (ApiException ''timeout'')))
     = Inr [example_device]
   \<and> issued 0 0 (failing_coordinator (ApiException ''timeout'')) =
     [GetThermostatsData,
      GetMeasure (AsyncGetMeasure ''d1'' ''m1'' TEMPERATURE Scale_MAX (- 3600)),
      GetMeasure (AsyncGetMeasure ''d1'' ''m1'' SETPOINT_TEMPERATURE Scale_MAX (- 3600))]
   \<and> length (issued 0 0 (failing_coordinator (ApiException ''timeout'')))
     \<noteq> 1 + 4 * length (all_modules [example_device])"
  using issued_after_thermostats [OF failing_thermostats, where ?now1.0 = 0 and ?now2.0 = 0]
  by (simp add: failing_thermostats temperature_tasks_def gas_usage_tasks_def example_modules
      example_ids failing_coordinator_def failing_client_def all_modules_def)

lemma collect_Inl_task:
  assumes "collect (map (perform cl) tasks) = Inl ex"
  shows "\<exists>t \<in> set tasks. raised cl (GetMeasure t) = Some ex"
proof -
  from assms have "Inl ex \<in> set (map (perform cl) tasks)" by (rule collect_Inl)
  then obtain t where mem: "t \<in> set tasks" and "perform cl t = Inl ex" by auto
  then have "raised cl (GetMeasure t) = Some ex" by simp
  with mem show ?thesis by blast
qed

lemma collect_Inr_task:
  assumes "collect (map (perform cl) tasks) = Inr xs" and "t \<in> set tasks"
  shows "raised cl (GetMeasure t) = None"
proof -
  from assms(1) have "map (perform cl) tasks = map Inr xs" by (rule collect_Inr)
  then have "set (map (perform cl) tasks) = set (map Inr xs)" by simp
  with assms(2) have "perform cl t \<in> Inr ` set xs" by auto
  then obtain x where "perform cl t = Inr x" by blast
  then show ?thesis by simp
qed

lemma update_method_frame:
  "snd (update_method now1 now2 c) = c\<lparr>sent := sent c @ issued now1 now2 c\<rparr>"
proof (cases "async_get_thermostats_data (c_client c)")
  case (Inl ex)
  from update_method_thermostats_fail [OF Inl, of now1 now2] show ?thesis
    by (simp add: issued_def)
next
  case ds: (Inr ds)
  show ?thesis
  proof (cases "collect (map (perform (c_client c)) (temperature_tasks (now1 - 3600) ds))")
    case (Inl ex)
    from update_method_temperature_fail [OF ds Inl, of now2] show ?thesis
      by (simp add: issued_def)
  next
    case ms: (Inr ms)
    show ?thesis
    proof (cases "collect (map (perform (c_client c)) (gas_usage_tasks (now2 - 604800) ds))")
      case (Inl ex)
      from update_method_energy_fail [OF ds ms Inl] show ?thesis
        by (simp add: issued_def)
    next
      case (Inr es)
      from update_method_success [OF ds ms Inr] show ?thesis
        by (simp add: issued_def)
    qed
  qed
qed

text \<open>
  Claim C3. In a poll cycle in which a request issued by the update method raises, the
  method raises too: the exception it raises is the translation of one raised by an
  issued request, \<^verbatim>\<open>ConfigEntryAuthFailed\<close> for
  \<^verbatim>\<open>RequestUnauthorizedException\<close>, \<^verbatim>\<open>UpdateFailed\<close> with the message for any
  other \<^verbatim>\<open>ApiException\<close>, the exception itself otherwise. The requests issued are
  an initial part of the cycle's schedule, each issued once (nothing is retried), and
  the coordinator is as before but for the trace of requests: no \<^verbatim>\<open>VaillantData\<close>
  is returned and the data it holds for the entities is unchanged.
\<close>

theorem failed_poll_raises_once:
  assumes "\<exists>r \<in> set (issued now1 now2 c). raised (c_client c) r \<noteq> None"
  shows "(\<exists>r \<in> set (issued now1 now2 c). \<exists>ex. raised (c_client c) r = Some ex
          \<and> fst (update_method now1 now2 c) = Inl (reraise ex)
          \<and> (case ex of
                RequestUnauthorizedException \<Rightarrow>
                  fst (update_method now1 now2 c) = Inl ConfigEntryAuthFailed
              | ApiException msg \<Rightarrow>
                  fst (update_method now1 now2 c)
                    = Inl (UpdateFailed (''Error communicating with API: '' @ msg))
              | _ \<Rightarrow> fst (update_method now1 now2 c) = Inl ex))
     \<and> (\<exists>k. issued now1 now2 c = take k (poll_schedule now1 now2 (c_client c)))
     \<and> snd (update_method now1 now2 c) = c\<lparr>sent := sent c @ issued now1 now2 c\<rparr>
     \<and> c_data (snd (update_method now1 now2 c)) = c_data c"
proof -
  let ?cl = "c_client c"
  let ?R = "fst (update_method now1 now2 c)"
  have frame: "snd (update_method now1 now2 c) = c\<lparr>sent := sent c @ issued now1 now2 c\<rparr>"
    by (rule update_method_frame)
  then have data: "c_data (snd (update_method now1 now2 c)) = c_data c" by simp
  have spelled: "?R = Inl (reraise ex) \<Longrightarrow>
      (case ex of
         RequestUnauthorizedException \<Rightarrow> ?R = Inl ConfigEntryAuthFailed
       | ApiException msg \<Rightarrow> ?R = Inl (UpdateFailed (''Error communicating with API: '' @ msg))
       | _ \<Rightarrow> ?R = Inl ex)" for ex
    by (cases ex) simp_all
  have main: "(\<exists>r \<in> set (issued now1 now2 c). \<exists>ex. raised ?cl r = Some ex \<and> ?R = Inl (reraise ex))
      \<and> (\<exists>k. issued now1 now2 c = take k (poll_schedule now1 now2 ?cl))"
  proof (cases "async_get_thermostats_data ?cl")
    case (Inl ex)
    from update_method_thermostats_fail [OF Inl, of now1 now2]
    have res: "?R = Inl (reraise ex)" and iss: "issued now1 now2 c = [GetThermostatsData]"
      by (simp_all add: issued_def)
    have tk: "issued now1 now2 c = take 1 (poll_schedule now1 now2 ?cl)"
      using iss by (simp add: poll_schedule_def)
    have mem: "GetThermostatsData \<in> set (issued now1 now2 c)" using iss by simp
    have rs: "raised ?cl GetThermostatsData = Some ex" using Inl by simp
    from mem rs res
    have "\<exists>r \<in> set (issued now1 now2 c). \<exists>ex. raised ?cl r = Some ex \<and> ?R = Inl (reraise ex)"
      by blast
    moreover from tk have "\<exists>k. issued now1 now2 c = take k (poll_schedule now1 now2 ?cl)"
      by blast
    ultimately show ?thesis by (rule conjI)
  next
    case ds: (Inr ds)
    let ?T = "temperature_tasks (now1 - 3600) ds"
    let ?G = "gas_usage_tasks (now2 - 604800) ds"
    have sched: "poll_schedule now1 now2 ?cl = GetThermostatsData # map GetMeasure (?T @ ?G)"
      using ds by (simp add: poll_schedule_def)
    show ?thesis
    proof (cases "collect (map (perform ?cl) ?T)")
      case (Inl ex)
      from update_method_temperature_fail [OF ds Inl, of now2]
      have res: "?R = Inl (reraise ex)"
        and iss: "issued now1 now2 c = GetThermostatsData # map GetMeasure ?T"
        by (simp_all add: issued_def)
      have tk: "issued now1 now2 c = take (1 + length ?T) (poll_schedule now1 now2 ?cl)"
        using iss sched by simp
      from collect_Inl_task [OF Inl]
      obtain t where t: "t \<in> set ?T" and rs: "raised ?cl (GetMeasure t) = Some ex" by blast
      from t iss have mem: "GetMeasure t \<in> set (issued now1 now2 c)" by simp
      from mem rs res
      have "\<exists>r \<in> set (issued now1 now2 c). \<exists>ex. raised ?cl r = Some ex \<and> ?R = Inl (reraise ex)"
        by blast
      moreover from tk have "\<exists>k. issued now1 now2 c = take k (poll_schedule now1 now2 ?cl)"
        by blast
      ultimately show ?thesis by (rule conjI)
    next
      case ms: (Inr ms)
      show ?thesis
      proof (cases "collect (map (perform ?cl) ?G)")
        case (Inl ex)
        from update_method_energy_fail [OF ds ms Inl]
        have res: "?R = Inl (reraise ex)"
          and iss: "issued now1 now2 c = GetThermostatsData # map GetMeasure (?T @ ?G)"
          by (simp_all add: issued_def)
        have tk: "issued now1 now2 c = take (length (poll_schedule now1 now2 ?cl))
            (poll_schedule now1 now2 ?cl)"
          using iss sched by simp
        from collect_Inl_task [OF Inl]
        obtain t where t: "t \<in> set ?G" and rs: "raised ?cl (GetMeasure t) = Some ex" by blast
        from t iss have mem: "GetMeasure t \<in> set (issued now1 now2 c)" by simp
        from mem rs res
        have "\<exists>r \<in> set (issued now1 now2 c). \<exists>ex. raised ?cl r = Some ex \<and> ?R = Inl (reraise ex)"
          by blast
        moreover from tk have "\<exists>k. issued now1 now2 c = take k (poll_schedule now1 now2 ?cl)"
          by blast
        ultimately show ?thesis by (rule conjI)
      next
        case es: (Inr es)
        from update_method_success [OF ds ms es]
        have iss: "issued now1 now2 c = GetThermostatsData # map GetMeasure (?T @ ?G)"
          by (simp add: issued_def)
        have none: "raised ?cl r = None" if "r \<in> set (issued now1 now2 c)" for r
        proof -
          from that iss consider "r = GetThermostatsData"
            | t where "r = GetMeasure t" "t \<in> set ?T"
            | t where "r = GetMeasure t" "t \<in> set ?G"
            by auto
          then show ?thesis
          proof cases
            case 1
            with ds show ?thesis by simp
          next
            case 2
            with collect_Inr_task [OF ms] show ?thesis by simp
          next
            case 3
            with collect_Inr_task [OF es] show ?thesis by simp
          qed
        qed
        from assms obtain r where "r \<in> set (issued now1 now2 c)"
          and "raised ?cl r \<noteq> None" by blast
        with none [of r] have False by simp
        then show ?thesis by (rule FalseE)
      qed
    qed
  qed
  from main obtain r ex where r: "r \<in> set (issued now1 now2 c)"
    and ex: "raised ?cl r = Some ex" and res: "?R = Inl (reraise ex)" by blast
  from spelled [OF res] r ex res
  have "\<exists>r \<in> set (issued now1 now2 c). \<exists>ex. raised ?cl r = Some ex \<and> ?R = Inl (reraise ex)
      \<and> (case ex of
            RequestUnauthorizedException \<Rightarrow> ?R = Inl ConfigEntryAuthFailed
          | ApiException msg \<Rightarrow> ?R = Inl (UpdateFailed (''Error communicating with API: '' @ msg))
          | _ \<Rightarrow> ?R = Inl ex)"
    by blast
  with main frame data show ?thesis by blast
qed

lemma failing_issued:
  "issued 0 0 (failing_coordinator ex) =
     [GetThermostatsData,
      GetMeasure (AsyncGetMeasure ''d1'' ''m1'' TEMPERATURE Scale_MAX (- 3600)),
      GetMeasure (AsyncGetMeasure ''d1'' ''m1'' SETPOINT_TEMPERATURE Scale_MAX (- 3600))]"
  using issued_after_thermostats [OF failing_thermostats, where ?now1.0 = 0 and ?now2.0 = 0]
  by (simp add: temperature_tasks_def example_modules example_ids failing_coordinator_def
      failing_client_def)

lemma failing_raised:
  assumes "raised (c_client (failing_coordinator ex)) r = Some ex'"
  shows "ex' = ex"
proof (cases r)
  case GetThermostatsData
  with assms show ?thesis by (simp add: failing_coordinator_def failing_client_def)
next
  case (GetMeasure t)
  with assms show ?thesis
    by (cases t) (simp add: failing_coordinator_def failing_client_def)
qed

theorem failed_poll_raises_once_witness:
  "(\<exists>r \<in> set (issued 0 0 (failing_coordinator RequestUnauthorizedException)).
      raised (c_client (failing_coordinator RequestUnauthorizedException)) r \<noteq> None)
   \<and> fst (update_method 0 0 (failing_coordinator RequestUnauthorizedException))
       = Inl ConfigEntryAuthFailed
   \<and> c_data (snd (update_method 0 0 (failing_coordinator RequestUnauthorizedException)))
       = Some example_data
   \<and> (\<exists>r \<in> set (issued 0 0 (failing_coordinator (ApiException ''timeout''))).
      raised (c_client (failing_coordinator (ApiException ''timeout''))) r \<noteq> None)
   \<and> fst (update_method 0 0 (failing_coordinator (ApiException ''timeout'')))
       = Inl (UpdateFailed ''Error communicating with API: timeout'')"
proof -
  have raising: "\<exists>r \<in> set (issued 0 0 (failing_coordinator ex)).
      raised (c_client (failing_coordinator ex)) r \<noteq> None" for ex
  proof -
    let ?r = "GetMeasure (AsyncGetMeasure ''d1'' ''m1'' TEMPERATURE Scale_MAX (- 3600))"
    have "raised (c_client (failing_coordinator ex)) ?r \<noteq> None"
      by (simp add: failing_coordinator_def failing_client_def)
    moreover have "?r \<in> set (issued 0 0 (failing_coordinator ex))"
      by (simp add: failing_issued)
    ultimately show ?thesis by (rule rev_bexI [rotated])
  qed
  have result: "fst (update_method 0 0 (failing_coordinator ex)) = Inl (reraise ex)
      \<and> c_data (snd (update_method 0 0 (failing_coordinator ex)))
          = c_data (failing_coordinator ex)" for ex
  proof -
    from failed_poll_raises_once [OF raising [of ex]]
    obtain r ex' where 1: "raised (c_client (failing_coordinator ex)) r = Some ex'"
      and 2: "fst (update_method 0 0 (failing_coordinator ex)) = Inl (reraise ex')"
      and 3: "c_data (snd (update_method 0 0 (failing_coordinator ex)))
          = c_data (failing_coordinator ex)"
      by blast
    from failing_raised [OF 1] 2 3 show ?thesis by simp
  qed
  have r1: "fst (update_method 0 0 (failing_coordinator RequestUnauthorizedException))
      = Inl ConfigEntryAuthFailed"
    using result [of RequestUnauthorizedException] by simp
  have r2: "fst (update_method 0 0 (failing_coordinator (ApiException ''timeout'')))
      = Inl (UpdateFailed ''Error communicating with API: timeout'')"
    using result [of "ApiException ''timeout''"] by simp
  have d: "c_data (snd (update_method 0 0 (failing_coordinator RequestUnauthorizedException)))
      = Some example_data"
    using result [of RequestUnauthorizedException] by (simp add: failing_coordinator_def)
  from raising r1 r2 d show ?thesis by simp
qed

end
